theory Spec2Isabelle
  imports Main "HOL-Library.Multiset" "HOL-Library.List_Lexorder"
begin

section \<open>Strings\<close>

text \<open>
  A Python \<open>str\<close> is a sequence of Unicode code points: \<open>len\<close> counts code points and
  \<open>==\<close>, \<open><\<close> compare them one by one. The model is a list of code points, ordered
  lexicographically. \<open>u\<close> writes an ASCII literal of the source as such a list; the Chinese
  literals of the source are written out as code points.
\<close>

type_synonym ustr = "nat list"

definition u :: "string \<Rightarrow> ustr" where
  "u s = map of_char s"

text \<open>\<open>s.startswith(p)\<close>.\<close>

fun startswith :: "ustr \<Rightarrow> ustr \<Rightarrow> bool" where
  "startswith s [] = True"
| "startswith [] (p # ps) = False"
| "startswith (c # cs) (p # ps) = (c = p \<and> startswith cs ps)"

text \<open>\<open>sub in s\<close> on strings: \<open>sub\<close> occurs in \<open>s\<close> as a contiguous run.\<close>

fun py_in :: "ustr \<Rightarrow> ustr \<Rightarrow> bool" where
  "py_in sub [] = (sub = [])"
| "py_in sub (c # cs) = (startswith (c # cs) sub \<or> py_in sub cs)"

text \<open>
  \<open>str.isspace\<close> for one code point; the regular-expression class \<open>\s\<close> and
  \<open>str.strip()\<close> use the same set.
\<close>

definition py_isspace :: "nat \<Rightarrow> bool" where
  "py_isspace c =
     (c \<in> set [9, 10, 11, 12, 13, 28, 29, 30, 31, 32, 133, 160, 5760, 8192, 8193, 8194,
                8195, 8196, 8197, 8198, 8199, 8200, 8201, 8202, 8232, 8233, 8239, 8287,
                12288])"

text \<open>
  The regular-expression class \<open>\d\<close> on \<open>str\<close> patterns is the Unicode decimal digits
  (general category Nd). They come in runs of ten; the table holds the code point of the
  digit zero of each run (Unicode 14).
\<close>

definition decimal_zeros :: "nat list" where
  "decimal_zeros =
     [48, 1632, 1776, 1984, 2406, 2534, 2662, 2790, 2918, 3046, 3174, 3302, 3430,
      3558, 3664, 3792, 3872, 4160, 4240, 6112, 6160, 6470, 6608, 6784, 6800, 6992,
      7088, 7232, 7248, 42528, 43216, 43264, 43472, 43504, 43600, 44016, 65296, 66720,
      68912, 69734, 69872, 69942, 70096, 70384, 70736, 70864, 71248, 71360, 71472,
      71904, 72016, 72784, 73040, 73120, 92768, 92864, 93008, 120782, 120792, 120802,
      120812, 120822, 123200, 123632, 125264, 130032]"

definition py_isdecimal :: "nat \<Rightarrow> bool" where
  "py_isdecimal c = list_ex (\<lambda>z. z \<le> c \<and> c \<le> z + 9) decimal_zeros"

text \<open>\<open>s.strip()\<close>.\<close>

definition py_strip :: "ustr \<Rightarrow> ustr" where
  "py_strip s = rev (dropWhile py_isspace (rev (dropWhile py_isspace s)))"

text \<open>\<open>s.replace(a, b)\<close> for one-character \<open>a\<close> and \<open>b\<close>.\<close>

definition replace_char :: "nat \<Rightarrow> nat \<Rightarrow> ustr \<Rightarrow> ustr" where
  "replace_char a b s = map (\<lambda>c. if c = a then b else c) s"

section \<open>The date patterns\<close>

text \<open>
  The source searches with
  \<^verbatim>\<open>\d{4}[-/]\d{1,2}[-/]\d{1,2}\<close> (list pages) and
  \<^verbatim>\<open>\d{4}[-/\.]\d{1,2}[-/\.]\d{1,2}\<close> (sjtu).
  A backtracking matcher is modelled by the list of its successes in the order it tries
  them: each success is the matched text and the rest of the input, a greedy \<open>{1,2}\<close>
  tries two digits before one, and the match is the first success.
\<close>

definition digit1 :: "ustr \<Rightarrow> (ustr \<times> ustr) list" where
  "digit1 s = (case s of [] \<Rightarrow> [] | c # r \<Rightarrow> if py_isdecimal c then [([c], r)] else [])"

definition digits4 :: "ustr \<Rightarrow> (ustr \<times> ustr) list" where
  "digits4 s =
     [(a @ b @ c @ d, r4). (a, r1) \<leftarrow> digit1 s, (b, r2) \<leftarrow> digit1 r1,
                           (c, r3) \<leftarrow> digit1 r2, (d, r4) \<leftarrow> digit1 r3]"

definition digits12 :: "ustr \<Rightarrow> (ustr \<times> ustr) list" where
  "digits12 s = [(a @ b, r2). (a, r1) \<leftarrow> digit1 s, (b, r2) \<leftarrow> digit1 r1 @ [([], r1)]]"

definition one_of :: "nat list \<Rightarrow> ustr \<Rightarrow> (ustr \<times> ustr) list" where
  "one_of seps s = (case s of [] \<Rightarrow> [] | c # r \<Rightarrow> if c \<in> set seps then [([c], r)] else [])"

definition date_matches :: "nat list \<Rightarrow> ustr \<Rightarrow> (ustr \<times> ustr) list" where
  "date_matches seps s =
     [(y @ s1 @ m @ s2 @ d, r5). (y, r1) \<leftarrow> digits4 s, (s1, r2) \<leftarrow> one_of seps r1,
                                 (m, r3) \<leftarrow> digits12 r2, (s2, r4) \<leftarrow> one_of seps r3,
                                 (d, r5) \<leftarrow> digits12 r4]"

text \<open>The pattern matched at the front of \<open>s\<close>: the token and what follows it.\<close>

definition match_date :: "nat list \<Rightarrow> ustr \<Rightarrow> (ustr \<times> ustr) option" where
  "match_date seps s = (case date_matches seps s of [] \<Rightarrow> None | x # _ \<Rightarrow> Some x)"

text \<open>\<open>re.search(pattern, s)\<close> and \<open>group(1)\<close>: the leftmost match, None when there is none.\<close>

fun re_search_date :: "nat list \<Rightarrow> ustr \<Rightarrow> ustr option" where
  "re_search_date seps [] = None"
| "re_search_date seps (c # cs) =
     (case match_date seps (c # cs) of
        Some (tok, rest) \<Rightarrow> Some tok
      | None \<Rightarrow> re_search_date seps cs)"

text \<open>The separators \<open>[-/]\<close> and \<open>[-/\.]\<close>.\<close>

definition seps2 :: "nat list" where
  "seps2 = u ''-/''"

definition seps3 :: "nat list" where
  "seps3 = u ''-/.''"

text \<open>
  \<^verbatim>\<open>re.sub(r"^\d{4}[-/\.]\d{1,2}[-/\.]\d{1,2}\s*", "", title)\<close>: the pattern is anchored,
  so at most the front of the title is removed, with the white space after the token.
\<close>

definition strip_leading_date :: "ustr \<Rightarrow> ustr" where
  "strip_leading_date title =
     (case match_date seps3 title of
        Some (tok, rest) \<Rightarrow> dropWhile py_isspace rest
      | None \<Rightarrow> title)"

text \<open>\<^verbatim>\<open>.replace(".", "-").replace("/", "-")\<close> (sjtu).\<close>

definition normalize_date :: "ustr \<Rightarrow> ustr" where
  "normalize_date tok = replace_char 47 45 (replace_char 46 45 tok)"

section \<open>The validator\<close>

definition nav_keywords :: "ustr list" where
  "nav_keywords =
    [[39318, 39029],
     [26356, 22810],
     [35814, 24773],
     [26597, 30475],
     [28857, 20987],
     [19979, 36733],
     [30331, 24405],
     [27880, 20876],
     [37096, 38376, 27010, 20917],
     [32479, 25112, 22242, 20307],
     [27665, 20027, 20826, 27966],
     [21442, 25919, 35758, 25919],
     [29702, 35770, 22253, 22320],
     [26381, 21153, 25351, 21335],
     [22797, 26086, 32479, 25112],
     [20004, 20250, 19987, 39064],
     [20132, 22823, 39318, 39029],
     [26234, 24935, 32479, 25112],
     [20013, 22269, 20154, 22823, 32593],
     [20013, 22269, 25919, 21327, 32593],
     [20013, 22830, 32479, 25112, 37096],
     [19978, 28023, 32479, 19968, 25112, 32447],
     [27665, 38761],
     [27665, 30431],
     [27665, 24314],
     [27665, 36827],
     [20892, 24037, 20826],
     [33268, 20844, 20826],
     [20061, 19977, 23398, 31038],
     [21488, 30431],
     [20392, 32852],
     [27431, 32654, 21516, 23398, 20250],
     [30693, 32852, 20250],
     [21488, 32852],
     [27665, 26063, 32852]]"

text \<open>
  The loop \<^verbatim>\<open>for kw in nav_keywords: if title == kw or (len(title) < 10 and kw in title):
  return False\<close>; \<open>nav_hit\<close> is True when the loop returns.
\<close>

fun nav_hit :: "ustr \<Rightarrow> ustr list \<Rightarrow> bool" where
  "nav_hit title [] = False"
| "nav_hit title (kw # kws) =
     (if title = kw \<or> (length title < 10 \<and> py_in kw title) then True
      else nav_hit title kws)"

definition is_valid_news :: "ustr \<Rightarrow> ustr \<Rightarrow> ustr \<Rightarrow> bool" where
  "is_valid_news title url date_text =
     (if length title < 6 then False
      else if title \<in> set nav_keywords then False
      else if nav_hit title nav_keywords then False
      else if py_in (u ''list.htm'') url \<and> \<not> py_in (u ''/c'') url then False
      else if date_text = [] then False
      else True)"

section \<open>Records, configuration and the libraries\<close>

text \<open>A news entry: the dict with the keys source, title, date and url.\<close>

record news =
  source :: ustr
  title :: ustr
  date :: ustr
  url :: ustr

text \<open>One entry of \<open>UNIVERSITIES\<close>; its key \<open>url\<close> is the field \<open>list_url\<close>.\<close>

record config =
  list_url :: ustr
  base_url :: ustr
  parser :: ustr

text \<open>What \<open>requests.get\<close> returns: the status code and the bytes of the body.\<close>

record response =
  status_code :: nat
  content :: "nat list"

text \<open>
  What the code reads from a parsed page. For a list page, an item is an \<open>li\<close> element,
  seen through the calls the source makes on it:
  \<^item> \<open>first_link\<close>: \<open>item.find("a")\<close>, None when there is no anchor; for an anchor, its
    \<open>href\<close> attribute (None when absent) and \<open>get_text(strip=True)\<close>;
  \<^item> \<open>date_span\<close>: \<open>item.find("span", class_=...)\<close>, None when there is none, else its
    \<open>get_text(strip=True)\<close>;
  \<^item> \<open>item_text\<close>: \<open>item.get_text()\<close>.
  A page is the result of \<open>soup.select(...)\<close> and of \<open>soup.find_all("li")\<close>.
\<close>

datatype link = Link (href: "ustr option") (link_text: ustr)

record li_item =
  first_link :: "link option"
  date_span :: "ustr option"
  item_text :: ustr

record list_page =
  selected :: "li_item list"
  all_li :: "li_item list"

text \<open>
  For sjtu, an anchor of the page: its \<open>href\<close> attribute, its \<open>get_text(strip=True)\<close>, and
  the \<open>get_text()\<close> of \<open>find_parent()\<close> (None when there is no parent).
\<close>

record anchor =
  a_href :: "ustr option"
  a_text :: ustr
  parent_text :: "ustr option"

text \<open>A value returned by \<open>json.loads\<close>; an object keeps its members in the order read.\<close>

datatype json =
  JNull | JBool bool | JNum int | JStr ustr | JArr "json list" | JObj "(ustr \<times> json) list"

text \<open>
  The libraries and the network, as the code sees them:
  \<^item> \<open>http_get\<close>: \<open>requests.get(url, headers=HEADERS, timeout=REQUEST_TIMEOUT)\<close>, None when
    it raises (no connection, timeout);
  \<^item> \<open>apparent_encoding\<close>: the encoding guessed from the bytes of the body;
  \<^item> \<open>decode\<close>: \<open>response.text\<close> under a given encoding, None when it raises;
  \<^item> \<open>soup_list\<close>, \<open>soup_links\<close>: \<open>BeautifulSoup(html, "lxml")\<close> and the selections on it;
  \<^item> \<open>json_loads\<close>: \<open>json.loads\<close>, None when it raises;
  \<^item> \<open>urljoin\<close>: \<open>urllib.parse.urljoin\<close>, None when it raises.
\<close>

record world =
  http_get :: "ustr \<Rightarrow> response option"
  apparent_encoding :: "nat list \<Rightarrow> ustr"
  decode :: "ustr \<Rightarrow> nat list \<Rightarrow> ustr option"
  soup_list :: "ustr \<Rightarrow> list_page"
  soup_links :: "ustr \<Rightarrow> anchor list"
  json_loads :: "ustr \<Rightarrow> json option"
  urljoin :: "ustr \<Rightarrow> ustr \<Rightarrow> ustr option"

definition fudan_name :: ustr where
  "fudan_name = [22797, 26086, 22823, 23398]"

definition sjtu_name :: ustr where
  "sjtu_name = [19978, 28023, 20132, 36890, 22823, 23398]"

definition tongji_name :: ustr where
  "tongji_name = [21516, 27982, 22823, 23398]"

definition ecnu_name :: ustr where
  "ecnu_name = [21326, 19996, 24072, 33539, 22823, 23398]"

definition shnu_name :: ustr where
  "shnu_name = [19978, 28023, 24072, 33539, 22823, 23398]"

definition shsy_name :: ustr where
  "shsy_name = [19978, 28023, 24066, 31038, 20250, 20027, 20041, 23398, 38498]"

definition UNIVERSITIES :: "(ustr \<times> config) list" where
  "UNIVERSITIES =
     [(fudan_name, \<lparr>list_url = u ''https://www.tzb.fudan.edu.cn/20423/list.htm'',
                    base_url = u ''https://www.tzb.fudan.edu.cn'', parser = u ''fudan''\<rparr>),
      (sjtu_name, \<lparr>list_url = u ''https://tzb.sjtu.edu.cn/news'',
                   base_url = u ''https://tzb.sjtu.edu.cn'', parser = u ''sjtu''\<rparr>),
      (tongji_name, \<lparr>list_url = u ''https://tzb.tongji.edu.cn/syxw/list.htm'',
                     base_url = u ''https://tzb.tongji.edu.cn'', parser = u ''tongji''\<rparr>),
      (ecnu_name, \<lparr>list_url = u ''https://tzb.ecnu.edu.cn/tzxw/list.htm'',
                   base_url = u ''https://tzb.ecnu.edu.cn'', parser = u ''ecnu''\<rparr>),
      (shnu_name, \<lparr>list_url = u ''https://tzb.shnu.edu.cn/zhyw/list.htm'',
                   base_url = u ''https://tzb.shnu.edu.cn'', parser = u ''shnu''\<rparr>),
      (shsy_name, \<lparr>list_url = u ''https://www.shsy.org.cn/node933/shsy/tzll/gzdt/index.html'',
                   base_url = u ''https://www.shsy.org.cn'', parser = u ''shsy''\<rparr>)]"

section \<open>The page fetcher\<close>

text \<open>\<open>response.raise_for_status()\<close> raises for the statuses 400 to 599.\<close>

definition raise_for_status :: "response \<Rightarrow> bool" where
  "raise_for_status r = (400 \<le> status_code r \<and> status_code r < 600)"

text \<open>\<open>fetch_page\<close>: every exception of the body is caught and turned into None.\<close>

definition fetch_page :: "world \<Rightarrow> ustr \<Rightarrow> ustr option" where
  "fetch_page w url_arg =
     (case http_get w url_arg of
        None \<Rightarrow> None
      | Some r \<Rightarrow>
          if raise_for_status r then None
          else decode w (apparent_encoding w (content r)) (content r))"

section \<open>The extractors\<close>

text \<open>
  \<open>parse_fudan\<close>, \<open>parse_tongji\<close>, \<open>parse_ecnu\<close> and \<open>parse_shnu\<close> are the same text in the
  source up to the value of \<open>source\<close>; \<open>parse_list_page\<close> is that text, with the source
  name as an argument.
\<close>

definition news_items :: "list_page \<Rightarrow> li_item list" where
  "news_items page =
     (if selected page \<noteq> [] then selected page
      else filter (\<lambda>li. re_search_date seps2 (item_text li) \<noteq> None) (all_li page))"

definition item_date :: "li_item \<Rightarrow> ustr" where
  "item_date item =
     (case date_span item of
        Some t \<Rightarrow> t
      | None \<Rightarrow>
          (case re_search_date seps2 (item_text item) of
             Some tok \<Rightarrow> replace_char 47 45 tok
           | None \<Rightarrow> []))"

definition list_item_news :: "world \<Rightarrow> ustr \<Rightarrow> ustr \<Rightarrow> li_item \<Rightarrow> news option" where
  "list_item_news w src base item =
     (case first_link item of
        None \<Rightarrow> None
      | Some lnk \<Rightarrow>
          (case href lnk of
             None \<Rightarrow> None
           | Some h \<Rightarrow>
               if h = [] then None
               else (case urljoin w base h of
                       None \<Rightarrow> None
                     | Some url_v \<Rightarrow>
                         if is_valid_news (link_text lnk) url_v (item_date item)
                         then Some \<lparr>source = src, title = link_text lnk,
                                    date = item_date item, url = url_v\<rparr>
                         else None)))"

definition parse_list_page :: "ustr \<Rightarrow> world \<Rightarrow> ustr \<Rightarrow> ustr \<Rightarrow> news list" where
  "parse_list_page src w html base =
     List.map_filter (list_item_news w src base) (news_items (soup_list w html))"

definition parse_fudan :: "world \<Rightarrow> ustr \<Rightarrow> ustr \<Rightarrow> news list" where
  "parse_fudan = parse_list_page fudan_name"

definition parse_tongji :: "world \<Rightarrow> ustr \<Rightarrow> ustr \<Rightarrow> news list" where
  "parse_tongji = parse_list_page tongji_name"

definition parse_ecnu :: "world \<Rightarrow> ustr \<Rightarrow> ustr \<Rightarrow> news list" where
  "parse_ecnu = parse_list_page ecnu_name"

definition parse_shnu :: "world \<Rightarrow> ustr \<Rightarrow> ustr \<Rightarrow> news list" where
  "parse_shnu = parse_list_page shnu_name"

text \<open>
  \<open>parse_sjtu\<close>. The anchors kept are those whose \<open>href\<close> is there, not empty, and
  contains \<open>/post/\<close>.
\<close>

definition is_post_link :: "anchor \<Rightarrow> bool" where
  "is_post_link a = (case a_href a of None \<Rightarrow> False | Some x \<Rightarrow> x \<noteq> [] \<and> py_in (u ''/post/'') x)"

definition sjtu_date_title :: "anchor \<Rightarrow> ustr \<times> ustr" where
  "sjtu_date_title a =
     (case re_search_date seps3 (a_text a) of
        Some tok \<Rightarrow> (normalize_date tok, strip_leading_date (a_text a))
      | None \<Rightarrow>
          (case parent_text a of
             None \<Rightarrow> ([], a_text a)
           | Some pt \<Rightarrow>
               (case re_search_date seps3 pt of
                  Some tok \<Rightarrow> (normalize_date tok, a_text a)
                | None \<Rightarrow> ([], a_text a))))"

definition sjtu_item_news :: "world \<Rightarrow> ustr \<Rightarrow> anchor \<Rightarrow> news option" where
  "sjtu_item_news w base a =
     (case urljoin w base (case a_href a of None \<Rightarrow> [] | Some h \<Rightarrow> h) of
        None \<Rightarrow> None
      | Some url_v \<Rightarrow>
          (let (date_text, t) = sjtu_date_title a;
               t' = py_strip t
           in if t' \<noteq> [] \<and> 6 \<le> length t' \<and> date_text \<noteq> []
              then Some \<lparr>source = sjtu_name, title = t', date = date_text, url = url_v\<rparr>
              else None))"

definition parse_sjtu :: "world \<Rightarrow> ustr \<Rightarrow> ustr \<Rightarrow> news list" where
  "parse_sjtu w html base =
     List.map_filter (sjtu_item_news w base) (filter is_post_link (soup_links w html))"

text \<open>
  \<open>parse_shsy\<close>. The feed is fetched from a fixed address and decoded as UTF-8; the
  array is cut out with \<^verbatim>\<open>var\s+gzdtList\s*=\s*(\[.*\])\<close> under \<open>re.DOTALL\<close>: the
  greedy \<open>.*\<close> runs to the last \<open>]\<close> of the text.
\<close>

fun skip_lit :: "ustr \<Rightarrow> ustr \<Rightarrow> ustr option" where
  "skip_lit [] s = Some s"
| "skip_lit (p # ps) [] = None"
| "skip_lit (p # ps) (c # cs) = (if p = c then skip_lit ps cs else None)"

definition skip_spaces1 :: "ustr \<Rightarrow> ustr option" where
  "skip_spaces1 s =
     (case s of [] \<Rightarrow> None | c # r \<Rightarrow> if py_isspace c then Some (dropWhile py_isspace r) else None)"

definition upto_last :: "nat \<Rightarrow> ustr \<Rightarrow> ustr option" where
  "upto_last x s = (if x \<in> set s then Some (rev (dropWhile (\<lambda>c. c \<noteq> x) (rev s))) else None)"

definition match_feed :: "ustr \<Rightarrow> ustr option" where
  "match_feed s =
     Option.bind (skip_lit (u ''var'') s) (\<lambda>r1.
     Option.bind (skip_spaces1 r1) (\<lambda>r2.
     Option.bind (skip_lit (u ''gzdtList'') r2) (\<lambda>r3.
     Option.bind (skip_lit (u ''='') (dropWhile py_isspace r3)) (\<lambda>r4.
     Option.bind (skip_lit (u ''['') (dropWhile py_isspace r4)) (\<lambda>r5.
     map_option (\<lambda>body. 91 # body) (upto_last 93 r5))))))"

fun search_feed :: "ustr \<Rightarrow> ustr option" where
  "search_feed [] = None"
| "search_feed (c # cs) =
     (case match_feed (c # cs) of Some g \<Rightarrow> Some g | None \<Rightarrow> search_feed cs)"

text \<open>\<open>item.get(key, "")\<close> on a dict read by \<open>json.loads\<close>: a repeated key keeps its last value.\<close>

definition dict_get :: "(ustr \<times> json) list \<Rightarrow> ustr \<Rightarrow> json option" where
  "dict_get kvs k = map_of (rev kvs) k"

text \<open>
  \<open>item.get(key, "").strip()\<close>: None stands for the AttributeError raised when the value
  is not a string.
\<close>

definition str_field :: "(ustr \<times> json) list \<Rightarrow> ustr \<Rightarrow> ustr option" where
  "str_field kvs k =
     (case dict_get kvs k of
        None \<Rightarrow> Some (py_strip [])
      | Some (JStr s) \<Rightarrow> Some (py_strip s)
      | Some _ \<Rightarrow> None)"

definition shsy_root :: ustr where
  "shsy_root = u ''https://www.shsy.org.cn/''"

definition shsy_url :: "world \<Rightarrow> ustr \<Rightarrow> ustr option" where
  "shsy_url w msg_url =
     (if startswith msg_url (u ''http'') then Some msg_url
      else if startswith msg_url (u ''detailpage/'') then Some (shsy_root @ msg_url)
      else if msg_url \<noteq> [] then urljoin w shsy_root msg_url
      else None)"

definition shsy_item_news :: "world \<Rightarrow> json \<Rightarrow> news option" where
  "shsy_item_news w item =
     (case item of
        JObj kvs \<Rightarrow>
          Option.bind (str_field kvs (u ''messagetitle'')) (\<lambda>t.
          Option.bind (str_field kvs (u ''messagedate'')) (\<lambda>date_text.
          Option.bind (str_field kvs (u ''messageurl'')) (\<lambda>msg_url.
          Option.bind (shsy_url w msg_url) (\<lambda>url_v.
            if t \<noteq> [] \<and> 2 \<le> length t \<and> date_text \<noteq> []
            then Some \<lparr>source = shsy_name, title = t, date = date_text, url = url_v\<rparr>
            else None))))
      | _ \<Rightarrow> None)"

definition json_url :: ustr where
  "json_url = u ''https://www.shsy.org.cn/json/gzdt.js''"

definition parse_shsy :: "world \<Rightarrow> ustr \<Rightarrow> ustr \<Rightarrow> news list" where
  "parse_shsy w html base =
     (case http_get w json_url of
        None \<Rightarrow> []
      | Some r \<Rightarrow>
          (case decode w (u ''utf-8'') (content r) of
             None \<Rightarrow> []
           | Some js_content \<Rightarrow>
               (case search_feed js_content of
                  None \<Rightarrow> []
                | Some json_str \<Rightarrow>
                    (case json_loads w json_str of
                       Some (JArr data) \<Rightarrow> List.map_filter (shsy_item_news w) data
                     | _ \<Rightarrow> []))))"

section \<open>The aggregator\<close>

text \<open>
  \<open>PARSERS\<close>. A parser returns its list, or the text of the exception it raised; the six
  parsers of the source return a list on every observation of the page.
\<close>

definition PARSERS :: "(ustr \<times> (world \<Rightarrow> ustr \<Rightarrow> ustr \<Rightarrow> ustr + news list)) list" where
  "PARSERS =
     [(u ''fudan'', \<lambda>w html base. Inr (parse_fudan w html base)),
      (u ''sjtu'', \<lambda>w html base. Inr (parse_sjtu w html base)),
      (u ''tongji'', \<lambda>w html base. Inr (parse_tongji w html base)),
      (u ''ecnu'', \<lambda>w html base. Inr (parse_ecnu w html base)),
      (u ''shnu'', \<lambda>w html base. Inr (parse_shnu w html base)),
      (u ''shsy'', \<lambda>w html base. Inr (parse_shsy w html base))]"

text \<open>The three messages: site not reachable, parser not found, exception while scraping.\<close>

definition msg_fetch_failed :: ustr where
  "msg_fetch_failed = [32593, 31449, 35775, 38382, 36229, 26102, 25110, 22833, 36133]"

definition msg_no_parser :: ustr where
  "msg_no_parser = [35299, 26512, 22120, 26410, 25214, 21040]"

definition msg_exception :: ustr where
  "msg_exception = [29228, 21462, 24322, 24120, 58, 32]"

definition scrape_university :: "world \<Rightarrow> ustr \<Rightarrow> config \<Rightarrow> ustr \<times> news list \<times> ustr option" where
  "scrape_university w name cfg =
     (case fetch_page w (list_url cfg) of
        None \<Rightarrow> (name, [], Some (name @ msg_fetch_failed))
      | Some html \<Rightarrow>
          (case map_of PARSERS (parser cfg) of
             None \<Rightarrow> (name, [], Some (name @ msg_no_parser))
           | Some p \<Rightarrow>
               (case p w html (base_url cfg) of
                  Inr news_list \<Rightarrow> (name, news_list, None)
                | Inl e \<Rightarrow> (name, [], Some (name @ msg_exception @ e)))))"

text \<open>
  The loop over \<open>as_completed(futures)\<close>: \<open>if error: errors.append(error)\<close> and
  \<open>all_news.extend(news)\<close>, over the results in the order in which the tasks complete.
\<close>

fun collect :: "(ustr \<times> news list \<times> ustr option) list \<Rightarrow> news list \<times> ustr list
                \<Rightarrow> news list \<times> ustr list" where
  "collect [] acc = acc"
| "collect ((name, news_list, error) # rest) (all_news, errors) =
     collect rest
       (all_news @ news_list,
        (case error of None \<Rightarrow> errors | Some e \<Rightarrow> if e \<noteq> [] then errors @ [e] else errors))"

definition parse_date :: "news \<Rightarrow> ustr" where
  "parse_date item =
     (if date item \<noteq> [] then replace_char 47 45 (date item) else u ''0000-00-00'')"

text \<open>
  \<open>list.sort(key=..., reverse=True)\<close>: a stable sort of the reversed list, reversed again,
  so that entries with equal keys keep their order.
\<close>

definition sort_reverse :: "('a \<Rightarrow> ustr) \<Rightarrow> 'a list \<Rightarrow> 'a list" where
  "sort_reverse key xs = rev (sort_key key (rev xs))"

text \<open>
  \<open>scrape_all_universities\<close>. The tasks run in a thread pool; \<open>order\<close> is the order in which
  they complete, a rearrangement of \<open>UNIVERSITIES\<close>.
\<close>

definition scrape_all_universities :: "world \<Rightarrow> (ustr \<times> config) list \<Rightarrow> news list \<times> ustr list" where
  "scrape_all_universities w order =
     (let (all_news, errors) =
            collect (map (\<lambda>(name, cfg). scrape_university w name cfg) order) ([], [])
      in (sort_reverse parse_date all_news, errors))"

section \<open>Absolute URLs\<close>





section \<open>Example pages and feeds\<close>

text \<open>
  Concrete libraries for the examples below. \<open>join_paths\<close> agrees with \<open>urljoin\<close> on a base
  without a path and a reference that starts with a slash; \<open>online_world\<close> answers every
  request with status 200, serves \<open>js\<close> at the feed address and an empty body elsewhere, reads
  the array text \<open>arr\<close> as \<open>data\<close>, and shows \<open>anchors\<close> as the anchors of a page.
\<close>

definition join_paths :: "ustr \<Rightarrow> ustr \<Rightarrow> ustr option" where
  "join_paths b h = Some (b @ h)"

definition online_world :: "nat list \<Rightarrow> ustr \<Rightarrow> json \<Rightarrow> anchor list \<Rightarrow> world" where
  "online_world js arr data anchors =
     \<lparr>http_get = (\<lambda>x. Some \<lparr>status_code = 200, content = (if x = json_url then js else [])\<rparr>),
      apparent_encoding = (\<lambda>b. u ''ascii''),
      decode = (\<lambda>enc b. Some b),
      soup_list = (\<lambda>html. \<lparr>selected = [], all_li = []\<rparr>),
      soup_links = (\<lambda>html. anchors),
      json_loads = (\<lambda>s. if s = arr then Some data else None),
      urljoin = join_paths\<rparr>"

text \<open>
  A feed with three entries: a date written with slashes, a later date written with
  hyphens, and a date that is no date.
\<close>

definition slash_arr :: ustr where
  \<open>slash_arr = u ''[{"messagetitle":"Notice A","messagedate":"2024/01/01","messageurl":"detailpage/1.html"},{"messagetitle":"Notice B","messagedate":"2024-01-02","messageurl":"detailpage/2.html"},{"messagetitle":"Notice C","messagedate":"soon","messageurl":"detailpage/3.html"}]''\<close>

definition slash_data :: json where
  "slash_data =
     JArr [JObj [(u ''messagetitle'', JStr (u ''Notice A'')),
                 (u ''messagedate'', JStr (u ''2024/01/01'')),
                 (u ''messageurl'', JStr (u ''detailpage/1.html''))],
           JObj [(u ''messagetitle'', JStr (u ''Notice B'')),
                 (u ''messagedate'', JStr (u ''2024-01-02'')),
                 (u ''messageurl'', JStr (u ''detailpage/2.html''))],
           JObj [(u ''messagetitle'', JStr (u ''Notice C'')),
                 (u ''messagedate'', JStr (u ''soon'')),
                 (u ''messageurl'', JStr (u ''detailpage/3.html''))]]"

definition slash_world :: world where
  "slash_world = online_world (u ''var gzdtList = '' @ slash_arr) slash_arr slash_data []"

















section \<open>Facts about strings\<close>

lemma startswith_iff: "startswith s p \<longleftrightarrow> (\<exists>ss. s = p @ ss)"
  by (induction s p rule: startswith.induct) auto

lemma py_in_iff: "py_in sub s \<longleftrightarrow> (\<exists>ps ss. s = ps @ sub @ ss)"
proof (induction s)
  case Nil
  then show ?case by auto
next
  case (Cons c cs)
  show ?case
  proof
    assume "py_in sub (c # cs)"
    then consider "startswith (c # cs) sub" | "py_in sub cs" by auto
    then show "\<exists>ps ss. c # cs = ps @ sub @ ss"
    proof cases
      case 1
      then obtain ss where "c # cs = sub @ ss" by (auto simp: startswith_iff)
      then have "c # cs = [] @ sub @ ss" by simp
      then show ?thesis by blast
    next
      case 2
      then obtain ps ss where "cs = ps @ sub @ ss" using Cons.IH by auto
      then have "c # cs = (c # ps) @ sub @ ss" by simp
      then show ?thesis by blast
    qed
  next
    assume "\<exists>ps ss. c # cs = ps @ sub @ ss"
    then obtain ps ss where e: "c # cs = ps @ sub @ ss" by blast
    show "py_in sub (c # cs)"
    proof (cases ps)
      case Nil
      with e have "startswith (c # cs) sub" by (auto simp: startswith_iff)
      then show ?thesis by simp
    next
      case (Cons p ps')
      with e have "cs = ps' @ sub @ ss" by simp
      then have "py_in sub cs" using Cons.IH by blast
      then show ?thesis by simp
    qed
  qed
qed

section \<open>Properties of the validator\<close>

lemma nav_hit_iff:
  "nav_hit t kws \<longleftrightarrow> (\<exists>kw \<in> set kws. t = kw \<or> (length t < 10 \<and> py_in kw t))"
  by (induction kws) auto

text \<open>
  C3. \<open>is_valid_news\<close> returns False exactly when the title has fewer than 6 characters, or
  is an entry of the navigation list, or has fewer than 10 characters and contains an
  entry of the list as a substring, or the url contains \<open>list.htm\<close> and does not contain
  \<open>/c\<close>, or the date text is empty; otherwise it returns True.
\<close>

theorem is_valid_news_spec:
  "is_valid_news t url_v d =
     (\<not> (length t < 6
         \<or> t \<in> set nav_keywords
         \<or> (length t < 10 \<and> (\<exists>kw \<in> set nav_keywords. \<exists>ps ss. t = ps @ kw @ ss))
         \<or> ((\<exists>ps ss. url_v = ps @ u ''list.htm'' @ ss) \<and> \<not> (\<exists>ps ss. url_v = ps @ u ''/c'' @ ss))
         \<or> d = []))"
  unfolding is_valid_news_def nav_hit_iff py_in_iff[symmetric]
  by auto

theorem is_valid_news_spec_witness:
  "is_valid_news (u ''Campus news'') (u ''https://a.edu/c1/list.htm'') (u ''2024-01-01'')
   \<and> u ''Campus news'' \<notin> set nav_keywords \<and> u ''2024-01-01'' \<noteq> []"
proof -
  have v: "is_valid_news (u ''Campus news'') (u ''https://a.edu/c1/list.htm'') (u ''2024-01-01'')"
    by (simp add: is_valid_news_def nav_keywords_def u_def)
  show ?thesis
    using is_valid_news_spec [of "u ''Campus news''" "u ''https://a.edu/c1/list.htm''" "u ''2024-01-01''"] v
    by blast
qed

section \<open>Evaluating the examples\<close>

lemmas eval_defs =
  scrape_all_universities_def scrape_university_def fetch_page_def raise_for_status_def
  UNIVERSITIES_def PARSERS_def parse_fudan_def parse_tongji_def parse_ecnu_def parse_shnu_def
  parse_list_page_def news_items_def parse_sjtu_def parse_shsy_def json_url_def
  match_feed_def skip_spaces1_def py_isspace_def upto_last_def
  shsy_item_news_def str_field_def dict_get_def py_strip_def shsy_url_def shsy_root_def
  List.map_filter_def online_world_def join_paths_def u_def
  sort_reverse_def parse_date_def replace_char_def
  fudan_name_def sjtu_name_def tongji_name_def ecnu_name_def shnu_name_def shsy_name_def
  digit1_def digits4_def digits12_def one_of_def date_matches_def match_date_def seps2_def
  seps3_def py_isdecimal_def decimal_zeros_def strip_leading_date_def normalize_date_def
  sjtu_item_news_def sjtu_date_title_def is_post_link_def item_date_def list_item_news_def

section \<open>Properties of the aggregator\<close>

lemma collect_fst:
  "fst (collect rs acc) = fst acc @ concat (map (\<lambda>r. fst (snd r)) rs)"
  by (induction rs acc rule: collect.induct) auto


lemma mset_sort_reverse: "mset (sort_reverse k xs) = mset xs"
  by (simp add: sort_reverse_def)

lemma sort_reverse_sorted:
  "sorted_wrt (\<lambda>a b. k b \<le> k a) (sort_reverse k xs)"
proof -
  have "sorted (map k (sort_key k (rev xs)))" by simp
  then have "sorted_wrt (\<lambda>a b. k a \<le> k b) (sort_key k (rev xs))"
    by (simp add: sorted_wrt_map)
  then show ?thesis
    by (simp add: sort_reverse_def sorted_wrt_rev)
qed


lemma fst_scrape_all:
  "fst (scrape_all_universities w order) =
     sort_reverse parse_date
       (concat (map (\<lambda>p. fst (snd (scrape_university w (fst p) (snd p)))) order))"
  by (simp add: scrape_all_universities_def case_prod_unfold Let_def collect_fst comp_def)


text \<open>
  C10. The records returned by \<open>scrape_all_universities\<close> are a rearrangement of the
  concatenation of the lists the sites returned: the same records, each as often as it was
  returned, with no field changed. The replacement of slashes made for the sort key does not
  reach the stored date.
\<close>

theorem scrape_all_permutation:
  "mset (fst (scrape_all_universities w order)) =
     mset (concat (map (\<lambda>(name, cfg). fst (snd (scrape_university w name cfg))) order))"
  by (simp add: fst_scrape_all mset_sort_reverse case_prod_unfold)

text \<open>
  C2, as amended. The records are in descending order of the sort key, compared as
  strings. The key of a record is its date with every slash replaced by a hyphen, and
  \<open>0000-00-00\<close> when the date is empty; a date of any other form is its own key.
\<close>

theorem scrape_all_sorted_by_key:
  "sorted_wrt (\<lambda>a b. parse_date b \<le> parse_date a) (fst (scrape_all_universities w order))
   \<and> parse_date r = (if date r = [] then u ''0000-00-00'' else replace_char 47 45 (date r))"
proof
  show "sorted_wrt (\<lambda>a b. parse_date b \<le> parse_date a) (fst (scrape_all_universities w order))"
    by (simp add: scrape_all_universities_def case_prod_unfold Let_def sort_reverse_sorted)
  show "parse_date r = (if date r = [] then u ''0000-00-00'' else replace_char 47 45 (date r))"
    by (simp add: parse_date_def)
qed

theorem scrape_all_sorted_by_key_witness:
  "sorted_wrt (\<lambda>a b. parse_date b \<le> parse_date a) (fst (scrape_all_universities slash_world UNIVERSITIES))
   \<and> parse_date \<lparr>source = [], title = [], date = [], url = []\<rparr> = u ''0000-00-00''"
  using scrape_all_sorted_by_key [of slash_world UNIVERSITIES "\<lparr>source = [], title = [], date = [], url = []\<rparr>"]
  by simp

text \<open>
  C2 as stated fails: the order is by key, not by the stored date. In the feed above the entry
  dated \<open>2024-01-02\<close> comes before the entry dated \<open>2024/01/01\<close>, which is the greater string,
  and the entry dated \<open>soon\<close> is keyed by itself and comes first.
\<close>

theorem sort_counterexample:
  "fst (scrape_all_universities slash_world UNIVERSITIES) =
     [\<lparr>source = shsy_name, title = u ''Notice C'', date = u ''soon'',
        url = u ''https://www.shsy.org.cn/detailpage/3.html''\<rparr>,
      \<lparr>source = shsy_name, title = u ''Notice B'', date = u ''2024-01-02'',
        url = u ''https://www.shsy.org.cn/detailpage/2.html''\<rparr>,
      \<lparr>source = shsy_name, title = u ''Notice A'', date = u ''2024/01/01'',
        url = u ''https://www.shsy.org.cn/detailpage/1.html''\<rparr>]
   \<and> \<not> (u ''2024/01/01'' \<le> u ''2024-01-02'')
   \<and> parse_date \<lparr>source = shsy_name, title = u ''Notice C'', date = u ''soon'',
        url = u ''https://www.shsy.org.cn/detailpage/3.html''\<rparr> \<noteq> u ''0000-00-00''"
  by (simp add: eval_defs slash_world_def slash_arr_def slash_data_def)




section \<open>Fault isolation\<close>








section \<open>Properties of the page fetcher\<close>




section \<open>Properties of the feed extractor\<close>





section \<open>The records of the extractors\<close>















section \<open>The date patterns at work\<close>

































end
